theory Spec2Isabelle
  imports Complex_Main "HOL-Library.Word"
begin

section \<open>Bytes, numbers and exceptions\<close>

text \<open>
  A Node \<open>Buffer\<close> is a list of bytes. A JavaScript string is a list of UTF-16 code
  units; \<open>content.length\<close> counts them. A JavaScript number is a \<open>real\<close> (the
  rounding of IEEE doubles, NaN and the infinities are not part of the model). A 32-bit
  float read from a buffer is kept as its bit pattern.
\<close>

type_synonym byte = "8 word"
type_synonym buffer = "byte list"
type_synonym js_string = "16 word list"
type_synonym float32 = "32 word"


text \<open>
  Every exception the modelled code can raise or let through. \<open>DeviceError\<close> is whatever
  a call on the USB device handle throws.
\<close>

datatype js_error =
    RangeError
  | TypeError
  | DriverStateError string
  | HeaderBuildError string
  | DeviceError string

definition bindE :: "js_error + 'a \<Rightarrow> ('a \<Rightarrow> js_error + 'b) \<Rightarrow> js_error + 'b" where
  "bindE r f = (case r of Inl e \<Rightarrow> Inl e | Inr x \<Rightarrow> f x)"

subsection \<open>Buffer primitives\<close>

definition uint32LE_bytes :: "nat \<Rightarrow> buffer" where
  "uint32LE_bytes n =
     [of_nat (n mod 256), of_nat (n div 256 mod 256),
      of_nat (n div 65536 mod 256), of_nat (n div 16777216 mod 256)]"


definition le32 :: "buffer \<Rightarrow> nat \<Rightarrow> nat" where
  "le32 buf off =
     unat (buf ! off) + 256 * unat (buf ! (off + 1)) +
     65536 * unat (buf ! (off + 2)) + 16777216 * unat (buf ! (off + 3))"

definition readUInt32LE :: "buffer \<Rightarrow> nat \<Rightarrow> js_error + nat" where
  "readUInt32LE buf off =
     (if length buf < off + 4 then Inl RangeError else Inr (le32 buf off))"

definition readFloatLE :: "buffer \<Rightarrow> nat \<Rightarrow> js_error + float32" where
  "readFloatLE buf off =
     (if length buf < off + 4 then Inl RangeError else Inr (of_nat (le32 buf off)))"

definition readInt8 :: "buffer \<Rightarrow> nat \<Rightarrow> js_error + int" where
  "readInt8 buf off =
     (if length buf < off + 1 then Inl RangeError else Inr (sint (buf ! off)))"


definition int16 :: "byte \<Rightarrow> byte \<Rightarrow> int" where
  "int16 lo hi =
     (let u = int (unat lo) + 256 * int (unat hi)
      in if u < 32768 then u else u - 65536)"

fun int16_samples :: "buffer \<Rightarrow> int list" where
  "int16_samples (lo # hi # rest) = int16 lo hi # int16_samples rest"
| "int16_samples rest = []"

text \<open>
  \<open>new Int16Array(arrayBuffer, byteOffset)\<close> with no length: a RangeError when the
  offset is not a multiple of the element size, when the byte length of the array buffer is
  not a multiple of the element size, or when the offset lies beyond the end. The elements
  are little-endian, as on every platform this program runs on.
\<close>

definition Int16Array :: "buffer \<Rightarrow> nat \<Rightarrow> js_error + int list" where
  "Int16Array arrayBuffer byteOffset =
     (if byteOffset mod 2 \<noteq> 0 then Inl RangeError
      else if length arrayBuffer mod 2 \<noteq> 0 then Inl RangeError
      else if length arrayBuffer < byteOffset then Inl RangeError
      else Inr (int16_samples (drop byteOffset arrayBuffer)))"

section \<open>messages/readable.js\<close>

text \<open>
  Each constructor is a function of the body; the header, which the base class only stores,
  is left out. A field the constructor does not assign is \<open>None\<close>.
\<close>

record plugged =
  phoneType :: nat
  wifi :: "nat option"

definition Plugged :: "buffer \<Rightarrow> js_error + plugged" where
  "Plugged data =
     (let wifiAvail = (length data = 8) in
      if wifiAvail then
        bindE (readUInt32LE data 0) (\<lambda>p.
        bindE (readUInt32LE data 4) (\<lambda>w.
        Inr \<lparr>phoneType = p, wifi = Some w\<rparr>))
      else
        bindE (readUInt32LE data 0) (\<lambda>p.
        Inr \<lparr>phoneType = p, wifi = None\<rparr>))"

record audio_data =
  decodeType :: nat
  volume :: float32
  audioType :: nat
  command :: "int option"
  volumeDuration :: "float32 option"
  samples :: "int list option"

text \<open>
  The body is the buffer that the read loop makes with \<open>Buffer.from(arrayBuffer)\<close>: a
  view of the whole array buffer, so \<open>data.buffer\<close> holds exactly the bytes of
  \<open>data\<close>. The field \<open>data\<close> of the source is \<open>samples\<close> here.
\<close>

definition AudioData :: "buffer \<Rightarrow> js_error + audio_data" where
  "AudioData data =
     bindE (readUInt32LE data 0) (\<lambda>dt.
     bindE (readFloatLE data 4) (\<lambda>vol.
     bindE (readUInt32LE data 8) (\<lambda>aty.
       let amount = int (length data) - 12;
           m = \<lparr>decodeType = dt, volume = vol, audioType = aty,
                command = None, volumeDuration = None, samples = None\<rparr>
       in if amount = 1 then
            bindE (readInt8 data 12) (\<lambda>c. Inr (m\<lparr>command := Some c\<rparr>))
          else if amount = 4 then
            bindE (readFloatLE data 12) (\<lambda>d. Inr (m\<lparr>volumeDuration := Some d\<rparr>))
          else
            bindE (Int16Array data 12) (\<lambda>xs. Inr (m\<lparr>samples := Some xs\<rparr>)))))"

text \<open>
  What the read loop emits: an instance of one of the classes of this file. The classes
  other than the two above are not told apart; such an instance is given by the type tag of
  its header and its body.
\<close>

datatype readable_message =
    Plugged_message plugged
  | AudioData_message audio_data
  | Other_message nat "buffer option"

section \<open>messages/utils.js and messages/sendable.js\<close>




record send_file =
  content :: buffer
  fileName :: js_string







text \<open>
  The objects that \<open>start\<close>, the timers and the callers hand to \<open>send\<close>. An
  instance of \<open>SendNumber\<close>, \<open>SendBoolean\<close> or \<open>SendString\<close> is a \<open>SendFile\<close> whose
  content its constructor has computed. \<open>SendCommand\<close> keeps the name it was built from.
\<close>

record config =
  width :: real
  height :: real
  fps :: real
  dpi :: real
  format :: real
  iBoxVersion :: real
  phoneWorkMode :: real
  packetMax :: real
  boxName :: js_string
  nightMode :: bool
  hand :: real
  mediaDelay :: real
  audioTransferMode :: bool
  wifiType :: string
  micType :: string
  phoneConfig :: "(nat \<times> real option) list"
  androidWorkMode :: bool

datatype sendable =
    SendFile send_file
  | SendOpen config
  | SendBoxSettings config
  | SendCommand string
  | SendTouch real real real
  | HeartBeat







section \<open>DongleDriver\<close>

definition CONFIG_NUMBER :: nat where
  "CONFIG_NUMBER = 1"

definition MAX_ERROR_COUNT :: nat where
  "MAX_ERROR_COUNT = 5"



subsection \<open>The USB device handle\<close>

text \<open>
  The device is supplied by the caller. Its descriptors are data; each of its asynchronous
  methods is given by what the awaited call yields: a value, or the exception it throws.
  \<open>selectConfiguration\<close> yields the value of the attribute \<open>configuration\<close> after the
  call; \<open>claimInterface\<close> and \<open>usb_close\<close> (the handle's own \<open>close\<close>) yield the
  exception, if any; \<open>transferOut\<close> yields the status of the transfer result.
\<close>

record usb_endpoint =
  direction :: string
  endpointNumber :: nat
  packetSize :: nat

record usb_alternate =
  endpoints :: "usb_endpoint list"

record usb_interface =
  interfaceNumber :: nat
  alternate :: usb_alternate

record usb_configuration =
  interfaces :: "usb_interface list"

record usb_device =
  opened :: bool
  configuration :: "usb_configuration option"
  selectConfiguration :: "nat \<Rightarrow> js_error + usb_configuration option"
  claimInterface :: "nat \<Rightarrow> js_error option"
  transferOut :: "nat \<Rightarrow> buffer \<Rightarrow> js_error + string"
  usb_close :: "js_error option"

text \<open>
  What one \<open>transferIn\<close> of the read loop yields: an exception, a result without data, or
  the bytes received.
\<close>

datatype in_result = InThrows js_error | InNoData | InData buffer

text \<open>
  While the loop is suspended at a transfer, the rest of the program runs. What it may have
  done to the session by the time the transfer settles: nothing; the handle has stopped
  reading as opened (it was unplugged, or its owner closed it); or another caller has run
  \<open>close\<close> on the driver. The device's answers, each with what happened meanwhile, in the
  order of the calls, are the script the loop runs against.
\<close>

datatype disturbance = Undisturbed | NoLongerOpened | DriverClosed

type_synonym in_script = "(in_result \<times> disturbance) list"

subsection \<open>Session state and observable actions\<close>

text \<open>
  The fields of the driver object, without their leading underscore. The handle that
  \<open>setInterval\<close> returns is the pair of its period and the message its callback sends.
\<close>

record session =
  heartbeatInterval :: "(nat \<times> sendable) option"
  device :: "usb_device option"
  inEP :: "usb_endpoint option"
  outEP :: "usb_endpoint option"
  errorCount :: nat

definition new_DongleDriver :: session where
  "new_DongleDriver =
     \<lparr>heartbeatInterval = None, device = None, inEP = None, outEP = None, errorCount = 0\<rparr>"

text \<open>
  Every function of the driver returns, beside its result and the new state, the actions it
  performed, in order: the calls on the device handle, the timers it sets and clears, the
  events it emits and what it prints with \<open>console.error\<close> (\<open>console.log\<close> and
  \<open>console.debug\<close> are left out). \<open>SetTimeout d m\<close> and \<open>SetInterval p m\<close> register a
  callback that calls \<open>send\<close> on \<open>m\<close>; the callback itself runs later, never inside the
  function that registered it. \<open>CallReadLoop\<close> is the call \<open>this.readLoop()\<close> that is not
  awaited.
\<close>

datatype effect =
    TransferOut nat buffer
  | TransferIn nat nat
  | SelectConfiguration nat
  | ClaimInterface nat
  | DeviceClose
  | SetTimeout nat sendable
  | SetInterval nat sendable
  | ClearInterval nat sendable
  | CallReadLoop
  | EmitFailure
  | EmitMessage readable_message
  | ConsoleError string

subsection \<open>close\<close>

text \<open>
  When the handle's \<open>close\<close> throws, the three assignments after the \<open>await\<close> do not
  run and the exception leaves \<open>close\<close>.
\<close>

definition close :: "session \<Rightarrow> (js_error + unit) \<times> session \<times> effect list" where
  "close s =
     (case device s of
        None \<Rightarrow> (Inr (), s, [])
      | Some d \<Rightarrow>
          let (s1, es) =
                (case heartbeatInterval s of
                   None \<Rightarrow> (s, [])
                 | Some (p, m) \<Rightarrow> (s\<lparr>heartbeatInterval := None\<rparr>, [ClearInterval p m]))
          in (case usb_close d of
                Some err \<Rightarrow> (Inl err, s1, es @ [DeviceClose])
              | None \<Rightarrow>
                  (Inr (), s1\<lparr>device := None, inEP := None, outEP := None\<rparr>,
                   es @ [DeviceClose])))"

text \<open>
  A caller that does not await \<open>close\<close> goes on as soon as \<open>close\<close> reaches its
  \<open>await\<close>. \<open>close_begin\<close> is \<open>close\<close> up to there: the guard, the timer, the
  call on the handle; it yields the handle whose \<open>close\<close> is awaited, if it got that far.
  \<open>close_finish\<close> is the rest, which runs once that call has settled, on the state the
  session has by then.
\<close>

definition close_begin :: "session \<Rightarrow> usb_device option \<times> session \<times> effect list" where
  "close_begin s =
     (case device s of
        None \<Rightarrow> (None, s, [])
      | Some d \<Rightarrow>
          let (s1, es) =
                (case heartbeatInterval s of
                   None \<Rightarrow> (s, [])
                 | Some (p, m) \<Rightarrow> (s\<lparr>heartbeatInterval := None\<rparr>, [ClearInterval p m]))
          in (Some d, s1, es @ [DeviceClose]))"

definition close_finish :: "usb_device \<Rightarrow> session \<Rightarrow> (js_error + unit) \<times> session" where
  "close_finish d s =
     (case usb_close d of
        Some err \<Rightarrow> (Inl err, s)
      | None \<Rightarrow> (Inr (), s\<lparr>device := None, inEP := None, outEP := None\<rparr>))"

text \<open>
  What a disturbance does to the session. The actions of the other caller's \<open>close\<close> are
  that caller's, not the loop's, and are not listed among the actions of the loop.
\<close>

definition disturb :: "disturbance \<Rightarrow> session \<Rightarrow> session" where
  "disturb x s =
     (case x of
        Undisturbed \<Rightarrow> s
      | NoLongerOpened \<Rightarrow> s\<lparr>device := map_option (\<lambda>d. d\<lparr>opened := False\<rparr>) (device s)\<rparr>
      | DriverClosed \<Rightarrow> fst (snd (close s)))"

subsection \<open>send\<close>

text \<open>
  \<open>message.serialise()\<close> is a method of the message; the serialiser is a parameter.
  \<open>send_try\<close> is the \<open>try\<close> block, \<open>send\<close> the guard and the \<open>catch\<close> around it.
  The argument \<open>this._outEP.endpointNumber\<close> is evaluated after the payload and before the
  transfer, and throws a TypeError when no endpoint is set.
\<close>

definition send_try ::
  "(sendable \<Rightarrow> js_error + buffer) \<Rightarrow> session \<Rightarrow> usb_device \<Rightarrow> sendable
     \<Rightarrow> (js_error + bool) \<times> effect list" where
  "send_try serialise s d message =
     (case serialise message of
        Inl e \<Rightarrow> (Inl e, [])
      | Inr payload \<Rightarrow>
          (case outEP s of
             None \<Rightarrow> (Inl TypeError, [])
           | Some ep \<Rightarrow>
               let es = [TransferOut (endpointNumber ep) payload] in
               (case transferOut d (endpointNumber ep) payload of
                  Inl e \<Rightarrow> (Inl e, es)
                | Inr status \<Rightarrow>
                    if status \<noteq> ''ok'' then (Inr False, es @ [ConsoleError ''transferResult''])
                    else (Inr True, es))))"

definition send ::
  "(sendable \<Rightarrow> js_error + buffer) \<Rightarrow> session \<Rightarrow> sendable
     \<Rightarrow> bool option \<times> effect list" where
  "send serialise s message =
     (case device s of
        None \<Rightarrow> (None, [])
      | Some d \<Rightarrow>
          if \<not> opened d then (None, [])
          else (case send_try serialise s d message of
                  (Inr b, es) \<Rightarrow> (Some b, es)
                | (Inl err, es) \<Rightarrow>
                    (Some False, es @ [ConsoleError ''Failure sending message to dongle''])))"

text \<open>
  The same function in two parts, for callers that start several sends before any of them
  settles. \<open>send_begin\<close> runs up to the \<open>await\<close>: it ends there with the transfer
  issued, or before, with the result already known. \<open>send_resume\<close> is what runs when the
  transfer has settled.
\<close>

datatype send_state = Settled "bool option" | AwaitingTransfer usb_device nat buffer

definition send_begin ::
  "(sendable \<Rightarrow> js_error + buffer) \<Rightarrow> session \<Rightarrow> sendable
     \<Rightarrow> send_state \<times> effect list" where
  "send_begin serialise s message =
     (case device s of
        None \<Rightarrow> (Settled None, [])
      | Some d \<Rightarrow>
          if \<not> opened d then (Settled None, [])
          else (case serialise message of
                  Inl e \<Rightarrow>
                    (Settled (Some False), [ConsoleError ''Failure sending message to dongle''])
                | Inr payload \<Rightarrow>
                    (case outEP s of
                       None \<Rightarrow>
                         (Settled (Some False),
                          [ConsoleError ''Failure sending message to dongle''])
                     | Some ep \<Rightarrow>
                         (AwaitingTransfer d (endpointNumber ep) payload,
                          [TransferOut (endpointNumber ep) payload]))))"

definition send_resume :: "send_state \<Rightarrow> bool option \<times> effect list" where
  "send_resume st =
     (case st of
        Settled r \<Rightarrow> (r, [])
      | AwaitingTransfer d ep payload \<Rightarrow>
          (case transferOut d ep payload of
             Inl e \<Rightarrow> (Some False, [ConsoleError ''Failure sending message to dongle''])
           | Inr status \<Rightarrow>
               if status \<noteq> ''ok'' then (Some False, [ConsoleError ''transferResult''])
               else (Some True, [])))"

subsection \<open>initialise\<close>

text \<open>
  \<open>initialise_try\<close> is the \<open>try\<close> block. The handler calls \<open>close\<close> without awaiting
  it and throws the error again: the state returned is the one at that throw, with
  \<open>close\<close> suspended at its \<open>await\<close>. The rest of that \<open>close\<close> runs afterwards
  (\<open>close_finish\<close>), and an exception of it reaches nobody.
\<close>

definition initialise_try ::
  "session \<Rightarrow> usb_device \<Rightarrow> (js_error + unit) \<times> session \<times> effect list" where
  "initialise_try s0 dev =
     (let s = s0\<lparr>device := Some dev\<rparr> in
      if \<not> opened dev then
        (Inl (DriverStateError ''Illegal state - device not opened''), s, [])
      else
        (case selectConfiguration dev CONFIG_NUMBER of
           Inl e \<Rightarrow> (Inl e, s, [SelectConfiguration CONFIG_NUMBER])
         | Inr cfg \<Rightarrow>
             let d1 = dev\<lparr>configuration := cfg\<rparr>;
                 s1 = s\<lparr>device := Some d1\<rparr>;
                 e1 = [SelectConfiguration CONFIG_NUMBER]
             in (case cfg of
                   None \<Rightarrow>
                     (Inl (DriverStateError ''Illegal state - device has no configuration''),
                      s1, e1)
                 | Some c \<Rightarrow>
                     (case interfaces c of
                        [] \<Rightarrow> (Inl TypeError, s1, e1)
                      | i # _ \<Rightarrow>
                          let eps = endpoints (alternate i);
                              inEndpoint = find (\<lambda>e. direction e = ''in'') eps;
                              outEndpoint = find (\<lambda>e. direction e = ''out'') eps
                          in (case inEndpoint of
                                None \<Rightarrow>
                                  (Inl (DriverStateError
                                     ''Illegal state - no IN endpoint found''), s1, e1)
                              | Some ie \<Rightarrow>
                                  (case outEndpoint of
                                     None \<Rightarrow>
                                       (Inl (DriverStateError
                                          ''Illegal state - no OUT endpoint found''), s1, e1)
                                   | Some oe \<Rightarrow>
                                       let s2 = s1\<lparr>inEP := Some ie, outEP := Some oe\<rparr>;
                                           e2 = e1 @ [ClaimInterface (interfaceNumber i)]
                                       in (case claimInterface d1 (interfaceNumber i) of
                                             Some e \<Rightarrow> (Inl e, s2, e2)
                                           | None \<Rightarrow> (Inr (), s2, e2))))))))"

definition initialise ::
  "session \<Rightarrow> usb_device \<Rightarrow> (js_error + unit) \<times> session \<times> effect list" where
  "initialise s dev =
     (if device s \<noteq> None then (Inr (), s, [])
      else (case initialise_try s dev of
              (Inr u, s', es) \<Rightarrow> (Inr u, s', es)
            | (Inl err, s', es) \<Rightarrow>
                (case close_begin s' of (pending, s'', es') \<Rightarrow> (Inl err, s'', es @ es'))))"

subsection \<open>readLoop\<close>

text \<open>
  \<open>MessageHeader\<close> is defined in messages/common.js, which is not part of the sources at
  hand. The loop uses its constant \<open>dataLength\<close>, its parser \<open>fromBuffer\<close>, the field
  \<open>length\<close> of a parsed header and the dispatch \<open>toMessage\<close>; they are parameters,
  gathered in one record. \<open>toMessage\<close> yields \<open>None\<close> where the source returns a null
  message. The listeners of \<open>emit\<close> are taken not to throw.
\<close>

record message_header =
  msg_type :: nat
  msg_length :: nat

record codec =
  dataLength :: nat
  fromBuffer :: "buffer \<Rightarrow> js_error + message_header"
  toMessage :: "message_header \<Rightarrow> buffer option \<Rightarrow> js_error + readable_message option"

text \<open>
  One pass through the \<open>try\<close> block: how it ends, what is left of the script, the
  session as the disturbances have left it, and the actions performed. \<open>Blocked\<close> is a
  transfer that the device has not answered: the script is exhausted and the loop stays
  suspended at that \<open>await\<close>. With no device attached,
  \<open>this._device?.transferIn\<close> makes no call and yields nothing: that can be so at the
  body transfer, when the driver has been closed meanwhile.
\<close>

datatype body_result = Completed | Thrown js_error | Returned | Blocked

definition deliver ::
  "codec \<Rightarrow> message_header \<Rightarrow> buffer option \<Rightarrow> in_script \<Rightarrow> session \<Rightarrow> effect list
     \<Rightarrow> body_result \<times> in_script \<times> session \<times> effect list" where
  "deliver c header extraData rest s es =
     (case toMessage c header extraData of
        Inl e \<Rightarrow> (Thrown e, rest, s, es)
      | Inr None \<Rightarrow> (Completed, rest, s, es)
      | Inr (Some message) \<Rightarrow> (Completed, rest, s, es @ [EmitMessage message]))"

definition read_body ::
  "codec \<Rightarrow> message_header \<Rightarrow> in_script \<Rightarrow> session \<Rightarrow> effect list
     \<Rightarrow> body_result \<times> in_script \<times> session \<times> effect list" where
  "read_body c header rest s e1 =
     (case device s of
        None \<Rightarrow> (Returned, rest, s, e1 @ [ConsoleError ''Failed to read extra data''])
      | Some d \<Rightarrow>
          (case inEP s of
             None \<Rightarrow> (Thrown TypeError, rest, s, e1)
           | Some ep \<Rightarrow>
               let e2 = e1 @ [TransferIn (endpointNumber ep) (msg_length header)] in
               (case rest of
                  [] \<Rightarrow> (Blocked, [], s, e2)
                | (InThrows e, x) # rest2 \<Rightarrow> (Thrown e, rest2, disturb x s, e2)
                | (InNoData, x) # rest2 \<Rightarrow>
                    (Returned, rest2, disturb x s,
                     e2 @ [ConsoleError ''Failed to read extra data''])
                | (InData extraDataRes, x) # rest2 \<Rightarrow>
                    deliver c header (Some extraDataRes) rest2 (disturb x s) e2)))"

definition loop_body ::
  "codec \<Rightarrow> in_script \<Rightarrow> session
     \<Rightarrow> body_result \<times> in_script \<times> session \<times> effect list" where
  "loop_body c script s =
     (case device s of
        None \<Rightarrow> (Thrown (HeaderBuildError ''Failed to read header data''), script, s, [])
      | Some d \<Rightarrow>
          (case inEP s of
             None \<Rightarrow> (Thrown TypeError, script, s, [])
           | Some ep \<Rightarrow>
               let e1 = [TransferIn (endpointNumber ep) (dataLength c)] in
               (case script of
                  [] \<Rightarrow> (Blocked, [], s, e1)
                | (InThrows e, x) # rest \<Rightarrow> (Thrown e, rest, disturb x s, e1)
                | (InNoData, x) # rest \<Rightarrow>
                    (Thrown (HeaderBuildError ''Failed to read header data''), rest,
                     disturb x s, e1)
                | (InData data, x) # rest \<Rightarrow>
                    (case fromBuffer c data of
                       Inl e \<Rightarrow> (Thrown e, rest, disturb x s, e1)
                     | Inr header \<Rightarrow>
                         if msg_length header \<noteq> 0
                         then read_body c header rest (disturb x s) e1
                         else deliver c header None rest (disturb x s) e1))))"

text \<open>
  How a run of the loop ends: the loop condition is false, the circuit breaker has called
  \<open>close\<close>, the body made the function return, or the loop is suspended at a transfer.
\<close>

datatype loop_exit = NotOpened | Failure | SilentReturn | Pending

definition catch_log :: "js_error \<Rightarrow> string" where
  "catch_log error =
     (case error of
        HeaderBuildError _ \<Rightarrow> ''Error parsing header for data''
      | _ \<Rightarrow> ''Unexpected Error parsing header for data'')"

lemma close_errorCount: "errorCount (fst (snd (close s))) = errorCount s"
  by (auto simp: close_def Let_def split: option.splits prod.splits)

lemma disturb_errorCount: "errorCount (disturb x s) = errorCount s"
  by (cases x) (simp_all add: disturb_def close_errorCount)

lemma deliver_shape:
  "deliver c header extraData rest s es = (r, rest', s', es') \<Longrightarrow> rest' = rest \<and> s' = s"
  by (auto simp: deliver_def split: sum.splits option.splits)

lemma read_body_shape:
  "read_body c header rest s e1 = (r, rest', s', es) \<Longrightarrow>
   length rest' \<le> length rest \<and> errorCount s' = errorCount s"
  by (auto simp: read_body_def Let_def disturb_errorCount dest!: deliver_shape
      split: option.splits list.splits in_result.splits prod.splits)

lemma loop_body_shape:
  "loop_body c script s = (r, rest, s', es) \<Longrightarrow>
   length rest \<le> length script \<and> errorCount s' = errorCount s \<and>
   (r = Completed \<longrightarrow> length rest < length script)"
  by (auto simp: loop_body_def Let_def disturb_errorCount
      dest!: deliver_shape read_body_shape
      split: option.splits list.splits in_result.splits prod.splits sum.splits if_splits)

text \<open>
  The \<open>close\<close> of the circuit breaker is not awaited: \<open>failure\<close> is emitted, and the
  loop returns, with \<open>close\<close> suspended at its \<open>await\<close>. The state returned is the
  one at that return, the device still attached; the rest of that \<open>close\<close> runs
  afterwards (\<open>close_finish\<close>).
\<close>

function readLoop ::
  "codec \<Rightarrow> in_script \<Rightarrow> session \<Rightarrow> loop_exit \<times> session \<times> effect list" where
  "readLoop c script s =
     (case device s of
        None \<Rightarrow> (NotOpened, s, [])
      | Some d \<Rightarrow>
          if \<not> opened d then (NotOpened, s, [])
          else if errorCount s \<ge> MAX_ERROR_COUNT then
            (case close_begin s of (pending, s', es) \<Rightarrow> (Failure, s', es @ [EmitFailure]))
          else
            (case loop_body c script s of
               (Blocked, rest, s1, es) \<Rightarrow> (Pending, s1, es)
             | (Returned, rest, s1, es) \<Rightarrow> (SilentReturn, s1, es)
             | (Completed, rest, s1, es) \<Rightarrow>
                 (case readLoop c rest s1 of (x, s', es') \<Rightarrow> (x, s', es @ es'))
             | (Thrown error, rest, s1, es) \<Rightarrow>
                 (case readLoop c rest (s1\<lparr>errorCount := errorCount s1 + 1\<rparr>) of
                    (x, s', es') \<Rightarrow> (x, s', es @ ConsoleError (catch_log error) # es'))))"
  by pat_completeness auto
termination
proof (relation "measures [\<lambda>(c, script, s). length script,
                           \<lambda>(c, script, s). MAX_ERROR_COUNT - errorCount s]")
  show "wf (measures [\<lambda>(c, script, s). length script,
                      \<lambda>(c :: codec, script :: in_script, s). MAX_ERROR_COUNT - errorCount s])"
    by simp
next
  fix c :: codec and script s x y x1 y1 x2 y2
  assume "(x, y) = loop_body c script s" "x = Completed" "(x1, y1) = y" "(x2, y2) = y1"
  then have "loop_body c script s = (Completed, x1, x2, y2)" by simp
  from loop_body_shape [OF this]
  show "((c, x1, x2), (c, script, s)) \<in> measures [\<lambda>(c, script, s). length script,
                           \<lambda>(c, script, s). MAX_ERROR_COUNT - errorCount s]"
    by simp
next
  fix c :: codec and script s x y e x1 y1 x2 y2
  assume a: "\<not> MAX_ERROR_COUNT \<le> errorCount s"
    and "(x, y) = loop_body c script s" "x = Thrown e" "(x1, y1) = y" "(x2, y2) = y1"
  then have "loop_body c script s = (Thrown e, x1, x2, y2)" by simp
  from loop_body_shape [OF this] a
  show "((c, x1, x2\<lparr>errorCount := errorCount x2 + 1\<rparr>), (c, script, s))
          \<in> measures [\<lambda>(c, script, s). length script,
                       \<lambda>(c, script, s). MAX_ERROR_COUNT - errorCount s]"
    by auto
qed

declare readLoop.simps [simp del]

subsection \<open>start\<close>



section \<open>A mock device\<close>

text \<open>
  The device of the end-to-end scenario: one interface with an IN endpoint 1 and an OUT
  endpoint 2; every call on it succeeds.
\<close>

definition mock_in :: usb_endpoint where
  "mock_in = \<lparr>direction = ''in'', endpointNumber = 1, packetSize = 512\<rparr>"

definition mock_out :: usb_endpoint where
  "mock_out = \<lparr>direction = ''out'', endpointNumber = 2, packetSize = 512\<rparr>"

definition mock_configuration :: "usb_endpoint list \<Rightarrow> usb_configuration" where
  "mock_configuration eps =
     \<lparr>interfaces = [\<lparr>interfaceNumber = 0, alternate = \<lparr>endpoints = eps\<rparr>\<rparr>]\<rparr>"

definition mock_device :: usb_device where
  "mock_device =
     \<lparr>opened = True, configuration = None,
      selectConfiguration = (\<lambda>n. Inr (Some (mock_configuration [mock_in, mock_out]))),
      claimInterface = (\<lambda>n. None),
      transferOut = (\<lambda>ep payload. Inr ''ok''),
      usb_close = None\<rparr>"

text \<open>
  The session as \<open>initialise\<close> leaves it on such a device, and as \<open>start\<close> leaves it.
\<close>

definition mock_session :: "usb_device \<Rightarrow> session" where
  "mock_session d =
     \<lparr>heartbeatInterval = None, device = Some d,
      inEP = Some mock_in, outEP = Some mock_out, errorCount = 0\<rparr>"

definition mock_streaming :: "usb_device \<Rightarrow> session" where
  "mock_streaming d = (mock_session d)\<lparr>heartbeatInterval := Some (2000, HeartBeat)\<rparr>"

text \<open>
  A serialiser and a header codec for the examples. A command serialises to its name, any
  other message to nothing. A header is 16 bytes, its type in the third word and its length
  in the fourth; every message is delivered, whatever its type.
\<close>

definition mock_serialise :: "sendable \<Rightarrow> js_error + buffer" where
  "mock_serialise m = (case m of SendCommand name \<Rightarrow> Inr (map of_char name) | _ \<Rightarrow> Inr [])"

definition mock_codec :: codec where
  "mock_codec =
     \<lparr>dataLength = 16,
      fromBuffer = (\<lambda>b. if length b = 16
                         then Inr \<lparr>msg_type = le32 b 8, msg_length = le32 b 12\<rparr>
                         else Inl (HeaderBuildError ''Invalid buffer size'')),
      toMessage = (\<lambda>h body. Inr (Some (Other_message (msg_type h) body)))\<rparr>"

section \<open>Properties of the message codec\<close>

lemma bindE_Inr [simp]: "bindE (Inr x) f = f x"
  by (simp add: bindE_def)

lemma bindE_Inl [simp]: "bindE (Inl e) f = Inl e"
  by (simp add: bindE_def)



lemma length_uint32LE_bytes [simp]: "length (uint32LE_bytes n) = 4"
  by (simp add: uint32LE_bytes_def)

lemma int16_samples_length: "length (int16_samples xs) = length xs div 2"
  by (induction xs rule: int16_samples.induct) simp_all








text \<open>
  C5, as the code has it. \<open>Plugged\<close> tests the length of the body against 8 only: a body
  of exactly 8 bytes yields \<open>phoneType\<close> and \<open>wifi\<close>; a body of any other length of at
  least 4 bytes (4 among them) yields \<open>phoneType\<close>, read from its first four bytes, with
  \<open>wifi\<close> absent; a body shorter than 4 bytes fails with a RangeError.
\<close>

theorem Plugged_by_length:
  "(length data = 8 \<longrightarrow>
      Plugged data = Inr \<lparr>phoneType = le32 data 0, wifi = Some (le32 data 4)\<rparr>) \<and>
   (4 \<le> length data \<and> length data \<noteq> 8 \<longrightarrow>
      Plugged data = Inr \<lparr>phoneType = le32 data 0, wifi = None\<rparr>) \<and>
   (length data < 4 \<longrightarrow> Plugged data = Inl RangeError)"
  by (simp add: Plugged_def readUInt32LE_def)

theorem Plugged_by_length_witness:
  "length [3, 0, 0, 0, 1, 0, 0, 0 :: byte] = 8 \<and>
   Plugged [3, 0, 0, 0, 1, 0, 0, 0] = Inr \<lparr>phoneType = 3, wifi = Some 1\<rparr> \<and>
   4 \<le> length [5, 0, 0, 0 :: byte] \<and> length [5, 0, 0, 0 :: byte] \<noteq> 8 \<and>
   Plugged [5, 0, 0, 0] = Inr \<lparr>phoneType = 5, wifi = None\<rparr> \<and>
   length [3, 0 :: byte] < 4 \<and> Plugged [3, 0] = Inl RangeError"
  using Plugged_by_length [of "[3, 0, 0, 0, 1, 0, 0, 0]"] Plugged_by_length [of "[5, 0, 0, 0]"]
    Plugged_by_length [of "[3, 0]"]
  by (simp add: le32_def)

text \<open>
  C5 as stated fails: a body of 5 bytes is neither 8 nor 4 bytes long, and it decodes.
\<close>

theorem Plugged_five_bytes_counterexample:
  "length [3, 0, 0, 0, 1 :: byte] \<noteq> 8 \<and> length [3, 0, 0, 0, 1 :: byte] \<noteq> 4 \<and>
   Plugged [3, 0, 0, 0, 1] = Inr \<lparr>phoneType = 3, wifi = None\<rparr>"
  by (simp add: Plugged_def readUInt32LE_def le32_def)

text \<open>
  C6, as the code has it. For a body of at least 12 bytes, \<open>decodeType\<close>, \<open>volume\<close>
  and \<open>audioType\<close> are read from the first 12 bytes; a body of exactly 13 bytes yields
  \<open>command\<close>, one of exactly 16 bytes \<open>volumeDuration\<close>; a body of any other even
  length yields all the bytes from offset 12 as int16 samples; a body of any other odd
  length fails with a RangeError, since an \<open>Int16Array\<close> cannot view it.
\<close>

theorem AudioData_by_length:
  assumes "12 \<le> length data"
  shows
    "(length data = 13 \<longrightarrow>
        AudioData data =
          Inr \<lparr>decodeType = le32 data 0, volume = of_nat (le32 data 4),
               audioType = le32 data 8, command = Some (sint (data ! 12)),
               volumeDuration = None, samples = None\<rparr>) \<and>
     (length data = 16 \<longrightarrow>
        AudioData data =
          Inr \<lparr>decodeType = le32 data 0, volume = of_nat (le32 data 4),
               audioType = le32 data 8, command = None,
               volumeDuration = Some (of_nat (le32 data 12)), samples = None\<rparr>) \<and>
     (length data \<noteq> 16 \<and> even (length data) \<longrightarrow>
        AudioData data =
          Inr \<lparr>decodeType = le32 data 0, volume = of_nat (le32 data 4),
               audioType = le32 data 8, command = None, volumeDuration = None,
               samples = Some (int16_samples (drop 12 data))\<rparr> \<and>
        length (int16_samples (drop 12 data)) * 2 = length data - 12) \<and>
     (length data \<noteq> 13 \<and> odd (length data) \<longrightarrow> AudioData data = Inl RangeError)"
proof -
  have hdr: "readUInt32LE data 0 = Inr (le32 data 0)"
    "readFloatLE data 4 = Inr (of_nat (le32 data 4))"
    "readUInt32LE data 8 = Inr (le32 data 8)"
    using assms by (simp_all add: readUInt32LE_def readFloatLE_def)
  have c13: "length data = 13 \<Longrightarrow> ?thesis"
    by (simp add: AudioData_def hdr readInt8_def)
  have c16: "length data = 16 \<Longrightarrow> ?thesis"
    by (simp add: AudioData_def hdr readFloatLE_def)
  have ev: "length data \<noteq> 16 \<Longrightarrow> even (length data) \<Longrightarrow> ?thesis"
  proof -
    assume a: "length data \<noteq> 16" "even (length data)"
    then have "length data \<noteq> 13" by auto
    moreover have "length data mod 2 = 0" using a by presburger
    moreover have "(length data - 12) div 2 * 2 = length data - 12"
      using a assms by presburger
    ultimately show ?thesis
      using a assms
      by (simp add: AudioData_def hdr Int16Array_def int16_samples_length)
  qed
  have od: "length data \<noteq> 13 \<Longrightarrow> odd (length data) \<Longrightarrow> ?thesis"
  proof -
    assume a: "length data \<noteq> 13" "odd (length data)"
    then have "length data \<noteq> 16" by auto
    moreover have "length data mod 2 = Suc 0" using a by presburger
    ultimately show ?thesis
      using a assms by (simp add: AudioData_def hdr Int16Array_def)
  qed
  from c13 c16 ev od show ?thesis by blast
qed

theorem AudioData_by_length_witness:
  "12 \<le> length [1,0,0,0, 0,0,128,63, 2,0,0,0, 255 :: byte] \<and>
   AudioData [1,0,0,0, 0,0,128,63, 2,0,0,0, 255] =
     Inr \<lparr>decodeType = 1, volume = 1065353216, audioType = 2, command = Some (- 1),
          volumeDuration = None, samples = None\<rparr> \<and>
   AudioData [1,0,0,0, 0,0,128,63, 2,0,0,0, 0,0,128,63] =
     Inr \<lparr>decodeType = 1, volume = 1065353216, audioType = 2, command = None,
          volumeDuration = Some 1065353216, samples = None\<rparr> \<and>
   AudioData [1,0,0,0, 0,0,128,63, 2,0,0,0, 255,255, 1,0, 0,128] =
     Inr \<lparr>decodeType = 1, volume = 1065353216, audioType = 2, command = None,
          volumeDuration = None, samples = Some [- 1, 1, - 32768]\<rparr> \<and>
   AudioData [1,0,0,0, 0,0,128,63, 2,0,0,0, 255,255, 1,0, 0] = Inl RangeError"
  using AudioData_by_length [of "[1,0,0,0, 0,0,128,63, 2,0,0,0, 255]"]
    AudioData_by_length [of "[1,0,0,0, 0,0,128,63, 2,0,0,0, 0,0,128,63]"]
    AudioData_by_length [of "[1,0,0,0, 0,0,128,63, 2,0,0,0, 255,255, 1,0, 0,128]"]
    AudioData_by_length [of "[1,0,0,0, 0,0,128,63, 2,0,0,0, 255,255, 1,0, 0]"]
  by (simp add: le32_def int16_def)

text \<open>
  C6 as stated fails: a body of 15 bytes has a length of at least 12 that is neither 13 nor
  16, and it does not decode to samples.
\<close>

theorem AudioData_fifteen_bytes_counterexample:
  "12 \<le> length [1,0,0,0, 0,0,128,63, 2,0,0,0, 255,255,1 :: byte] \<and>
   length [1,0,0,0, 0,0,128,63, 2,0,0,0, 255,255,1 :: byte] \<noteq> 13 \<and>
   length [1,0,0,0, 0,0,128,63, 2,0,0,0, 255,255,1 :: byte] \<noteq> 16 \<and>
   AudioData [1,0,0,0, 0,0,128,63, 2,0,0,0, 255,255,1] = Inl RangeError"
  by (simp add: AudioData_def readUInt32LE_def readFloatLE_def Int16Array_def)





section \<open>Properties of the driver\<close>

subsection \<open>send\<close>

text \<open>
  C2. \<open>send\<close> returns null, and attempts no transfer, exactly when the device is not
  open (no device, or a device that is not opened). When the device is open and the
  transfer is made, the result is true for the status \<open>ok\<close>, false for any other status
  and false when the transfer throws. The result is always one of the three values: no
  exception leaves \<open>send\<close>.
\<close>

theorem send_tri_state:
  "(device s = None \<or> (device s = Some d \<and> \<not> opened d) \<longrightarrow> send ser s m = (None, [])) \<and>
   (device s = Some d \<and> opened d \<longrightarrow>
      fst (send ser s m) = Some True \<or> fst (send ser s m) = Some False) \<and>
   (device s = Some d \<and> opened d \<and> ser m = Inr payload \<and> outEP s = Some ep \<longrightarrow>
      TransferOut (endpointNumber ep) payload \<in> set (snd (send ser s m)) \<and>
      (case transferOut d (endpointNumber ep) payload of
         Inr status \<Rightarrow> fst (send ser s m) = Some (status = ''ok'')
       | Inl e \<Rightarrow> fst (send ser s m) = Some False))"
  by (auto simp: send_def send_try_def Let_def split: option.splits sum.splits prod.splits)

theorem send_tri_state_witness:
  "send mock_serialise new_DongleDriver HeartBeat = (None, []) \<and>
   send mock_serialise (mock_session (mock_device\<lparr>opened := False\<rparr>)) HeartBeat = (None, []) \<and>
   fst (send mock_serialise (mock_session mock_device) HeartBeat) = Some True \<and>
   TransferOut 2 [] \<in> set (snd (send mock_serialise (mock_session mock_device) HeartBeat)) \<and>
   fst (send mock_serialise
          (mock_session (mock_device\<lparr>transferOut := (\<lambda>ep payload. Inr ''stall'')\<rparr>)) HeartBeat)
     = Some False \<and>
   fst (send mock_serialise
          (mock_session
             (mock_device\<lparr>transferOut := (\<lambda>ep payload. Inl (DeviceError ''NetworkError''))\<rparr>))
          HeartBeat)
     = Some False"
  using send_tri_state [where s = new_DongleDriver and ser = mock_serialise and m = HeartBeat]
    send_tri_state [where s = "mock_session (mock_device\<lparr>opened := False\<rparr>)"
      and d = "mock_device\<lparr>opened := False\<rparr>" and ser = mock_serialise and m = HeartBeat]
    send_tri_state [where s = "mock_session mock_device" and d = mock_device
      and ser = mock_serialise and m = HeartBeat and payload = "[]" and ep = mock_out]
    send_tri_state
      [where s = "mock_session (mock_device\<lparr>transferOut := (\<lambda>ep payload. Inr ''stall'')\<rparr>)"
       and d = "mock_device\<lparr>transferOut := (\<lambda>ep payload. Inr ''stall'')\<rparr>"
       and ser = mock_serialise and m = HeartBeat and payload = "[]" and ep = mock_out]
    send_tri_state
      [where s = "mock_session
                    (mock_device\<lparr>transferOut := (\<lambda>ep payload. Inl (DeviceError ''NetworkError''))\<rparr>)"
       and d = "mock_device\<lparr>transferOut := (\<lambda>ep payload. Inl (DeviceError ''NetworkError''))\<rparr>"
       and ser = mock_serialise and m = HeartBeat and payload = "[]" and ep = mock_out]
  by (simp add: new_DongleDriver_def mock_session_def mock_device_def mock_serialise_def
      mock_out_def)

subsection \<open>close\<close>

lemma close_None: "device s = None \<Longrightarrow> close s = (Inr (), s, [])"
  by (simp add: close_def)

lemma close_Some:
  "device s = Some d \<Longrightarrow>
   close s =
     (case usb_close d of
        Some err \<Rightarrow>
          (Inl err, s\<lparr>heartbeatInterval := None\<rparr>,
           (case heartbeatInterval s of None \<Rightarrow> [] | Some (p, m) \<Rightarrow> [ClearInterval p m]) @
           [DeviceClose])
      | None \<Rightarrow>
          (Inr (), s\<lparr>heartbeatInterval := None, device := None, inEP := None, outEP := None\<rparr>,
           (case heartbeatInterval s of None \<Rightarrow> [] | Some (p, m) \<Rightarrow> [ClearInterval p m]) @
           [DeviceClose]))"
  by (cases s) (auto simp: close_def Let_def split: option.splits prod.splits)

text \<open>
  C9, as the code has it. \<open>close\<close> can be called in every state, and a second
  \<open>close\<close> leaves the state as the first left it. With no device attached (before
  \<open>initialise\<close>, or after a \<open>close\<close> that went through) it does nothing. With a
  device attached it cancels the heartbeat timer and calls \<open>close\<close> on the device
  handle; when that call returns, it releases the device and both endpoints and returns
  normally, and a second \<open>close\<close> does nothing; when that call throws, the exception
  reaches the caller of \<open>close\<close>, and the device and the endpoints are kept.
\<close>

theorem close_releases:
  "(device s = None \<longrightarrow> close s = (Inr (), s, [])) \<and>
   fst (snd (close (fst (snd (close s))))) = fst (snd (close s)) \<and>
   (device s = Some d \<longrightarrow>
      heartbeatInterval (fst (snd (close s))) = None \<and>
      snd (snd (close s)) =
        (case heartbeatInterval s of None \<Rightarrow> [] | Some (p, m) \<Rightarrow> [ClearInterval p m]) @
        [DeviceClose] \<and>
      (usb_close d = None \<longrightarrow>
         fst (close s) = Inr () \<and>
         device (fst (snd (close s))) = None \<and>
         inEP (fst (snd (close s))) = None \<and>
         outEP (fst (snd (close s))) = None \<and>
         close (fst (snd (close s))) = (Inr (), fst (snd (close s)), [])) \<and>
      (usb_close d = Some e \<longrightarrow>
         fst (close s) = Inl e \<and>
         device (fst (snd (close s))) = Some d \<and>
         inEP (fst (snd (close s))) = inEP s \<and>
         outEP (fst (snd (close s))) = outEP s))"
proof -
  have idem: "fst (snd (close (fst (snd (close s))))) = fst (snd (close s))"
  proof (cases "device s")
    case None
    then show ?thesis by (simp add: close_None)
  next
    case (Some d')
    have dv: "device (s\<lparr>heartbeatInterval := None\<rparr>) = Some d'"
      using Some by simp
    show ?thesis
      by (cases "usb_close d'") (simp_all add: close_Some [OF Some] close_Some [OF dv] close_None)
  qed
  show ?thesis
    using idem by (auto simp: close_None close_Some split: option.splits)
qed

theorem close_releases_witness:
  "close new_DongleDriver = (Inr (), new_DongleDriver, []) \<and>
   fst (close (mock_streaming mock_device)) = Inr () \<and>
   snd (snd (close (mock_streaming mock_device))) = [ClearInterval 2000 HeartBeat, DeviceClose] \<and>
   device (fst (snd (close (mock_streaming mock_device)))) = None \<and>
   close (fst (snd (close (mock_streaming mock_device)))) =
     (Inr (), fst (snd (close (mock_streaming mock_device))), []) \<and>
   fst (close (mock_streaming (mock_device\<lparr>usb_close := Some (DeviceError ''NotFoundError'')\<rparr>)))
     = Inl (DeviceError ''NotFoundError'')"
  using close_releases [where s = new_DongleDriver]
    close_releases [where s = "mock_streaming mock_device" and d = mock_device]
    close_releases
      [where s = "mock_streaming (mock_device\<lparr>usb_close := Some (DeviceError ''NotFoundError'')\<rparr>)"
       and d = "mock_device\<lparr>usb_close := Some (DeviceError ''NotFoundError'')\<rparr>"
       and e = "DeviceError ''NotFoundError''"]
  by (simp add: new_DongleDriver_def mock_streaming_def mock_session_def mock_device_def)

text \<open>
  C9 as stated fails: when the \<open>close\<close> of the device handle throws, as it does for a
  device that has been unplugged, \<open>close\<close> throws, and the session keeps the device.
\<close>

theorem close_raises_counterexample:
  "fst (close (mock_streaming (mock_device\<lparr>usb_close := Some (DeviceError ''NotFoundError'')\<rparr>)))
     = Inl (DeviceError ''NotFoundError'') \<and>
   device (fst (snd (close
     (mock_streaming (mock_device\<lparr>usb_close := Some (DeviceError ''NotFoundError'')\<rparr>)))))
     = Some (mock_device\<lparr>usb_close := Some (DeviceError ''NotFoundError'')\<rparr>)"
  by (simp add: close_def mock_streaming_def mock_session_def mock_device_def)

subsection \<open>The two parts of close and of send\<close>

text \<open>
  Awaited with nothing in between, the two parts of \<open>close\<close> make \<open>close\<close>, and the two
  parts of \<open>send\<close> make \<open>send\<close>.
\<close>

lemma close_begin_None: "device s = None \<Longrightarrow> close_begin s = (None, s, [])"
  by (simp add: close_begin_def)

lemma close_begin_Some:
  "device s = Some d \<Longrightarrow>
   close_begin s =
     (Some d, s\<lparr>heartbeatInterval := None\<rparr>,
      (case heartbeatInterval s of None \<Rightarrow> [] | Some (p, m) \<Rightarrow> [ClearInterval p m]) @
      [DeviceClose])"
  by (cases s) (auto simp: close_begin_def Let_def split: option.splits prod.splits)

lemma close_begin_finish:
  "close s =
     (case close_begin s of
        (None, s1, es) \<Rightarrow> (Inr (), s1, es)
      | (Some d, s1, es) \<Rightarrow> (fst (close_finish d s1), snd (close_finish d s1), es))"
  by (auto simp: close_def close_begin_def close_finish_def Let_def
      split: option.splits prod.splits)

lemma send_begin_resume:
  "send ser s m =
     (fst (send_resume (fst (send_begin ser s m))),
      snd (send_begin ser s m) @ snd (send_resume (fst (send_begin ser s m))))"
  by (auto simp: send_def send_try_def send_begin_def send_resume_def Let_def
      split: option.splits sum.splits)

subsection \<open>initialise\<close>

lemma initialise_try_not_opened:
  "\<not> opened dev \<Longrightarrow>
   initialise_try s dev =
     (Inl (DriverStateError ''Illegal state - device not opened''), s\<lparr>device := Some dev\<rparr>, [])"
  by (simp add: initialise_try_def)

lemma initialise_try_no_configuration:
  "opened dev \<Longrightarrow> selectConfiguration dev CONFIG_NUMBER = Inr None \<Longrightarrow>
   initialise_try s dev =
     (Inl (DriverStateError ''Illegal state - device has no configuration''),
      s\<lparr>device := Some (dev\<lparr>configuration := None\<rparr>)\<rparr>, [SelectConfiguration CONFIG_NUMBER])"
  by (simp add: initialise_try_def)

lemma initialise_try_no_in:
  "opened dev \<Longrightarrow> selectConfiguration dev CONFIG_NUMBER = Inr (Some c) \<Longrightarrow>
   interfaces c = i # rest \<Longrightarrow>
   find (\<lambda>e. direction e = ''in'') (endpoints (alternate i)) = None \<Longrightarrow>
   initialise_try s dev =
     (Inl (DriverStateError ''Illegal state - no IN endpoint found''),
      s\<lparr>device := Some (dev\<lparr>configuration := Some c\<rparr>)\<rparr>, [SelectConfiguration CONFIG_NUMBER])"
  by (simp add: initialise_try_def)

lemma initialise_try_no_out:
  "opened dev \<Longrightarrow> selectConfiguration dev CONFIG_NUMBER = Inr (Some c) \<Longrightarrow>
   interfaces c = i # rest \<Longrightarrow>
   find (\<lambda>e. direction e = ''in'') (endpoints (alternate i)) \<noteq> None \<Longrightarrow>
   find (\<lambda>e. direction e = ''out'') (endpoints (alternate i)) = None \<Longrightarrow>
   initialise_try s dev =
     (Inl (DriverStateError ''Illegal state - no OUT endpoint found''),
      s\<lparr>device := Some (dev\<lparr>configuration := Some c\<rparr>)\<rparr>, [SelectConfiguration CONFIG_NUMBER])"
  by (auto simp: initialise_try_def)

lemma initialise_catch:
  "device s = None \<Longrightarrow> initialise_try s dev = (Inl err, s1, es1) \<Longrightarrow>
   initialise s dev = (Inl err, fst (snd (close_begin s1)), es1 @ snd (snd (close_begin s1)))"
  by (simp add: initialise_def split: prod.splits)

text \<open>
  C8, as the code has it. A session with no device attached holds no endpoint either (the
  constructor sets none, and \<open>close\<close> clears both together with the device). On such a
  session \<open>initialise\<close> fails with a DriverStateError for a device that is not opened,
  for one whose configuration is null once it has been selected, and for one whose first
  interface has no endpoint of direction \<open>in\<close> or none of direction \<open>out\<close>; when both
  are missing the error is the one about the IN endpoint. Before it throws, the handler
  calls \<open>close\<close> without awaiting it: when \<open>initialise\<close> throws, the \<open>close\<close> of the
  handle has been called, no endpoint is held and no timer is set, and the device is still
  attached. That \<open>close\<close> ends afterwards. The handle's \<open>close\<close> having returned, it
  detaches the device, and a further \<open>close\<close> does nothing. The handle's \<open>close\<close>
  having thrown, the device stays attached, and a further \<open>close\<close> calls the handle's
  \<open>close\<close> again and throws what that throws.
\<close>

theorem initialise_bad_device:
  assumes "device s = None" and "inEP s = None" and "outEP s = None"
    and "\<not> opened dev \<or>
         selectConfiguration dev CONFIG_NUMBER = Inr None \<or>
         (selectConfiguration dev CONFIG_NUMBER = Inr (Some c) \<and> interfaces c = i # rest \<and>
          (find (\<lambda>e. direction e = ''in'') (endpoints (alternate i)) = None \<or>
           find (\<lambda>e. direction e = ''out'') (endpoints (alternate i)) = None))"
  shows
    "fst (initialise s dev) =
       Inl (DriverStateError
         (if \<not> opened dev then ''Illegal state - device not opened''
          else if selectConfiguration dev CONFIG_NUMBER = Inr None
            then ''Illegal state - device has no configuration''
          else if find (\<lambda>e. direction e = ''in'') (endpoints (alternate i)) = None
            then ''Illegal state - no IN endpoint found''
          else ''Illegal state - no OUT endpoint found'')) \<and>
     snd (initialise s dev) =
       (fst (snd (close_begin (fst (snd (initialise_try s dev))))),
        snd (snd (initialise_try s dev)) @
        snd (snd (close_begin (fst (snd (initialise_try s dev)))))) \<and>
     DeviceClose \<in> set (snd (snd (initialise s dev))) \<and>
     inEP (fst (snd (initialise s dev))) = None \<and>
     outEP (fst (snd (initialise s dev))) = None \<and>
     heartbeatInterval (fst (snd (initialise s dev))) = None \<and>
     device (fst (snd (initialise s dev))) \<noteq> None \<and>
     fst (close_begin (fst (snd (initialise_try s dev)))) = device (fst (snd (initialise s dev))) \<and>
     (device (fst (snd (initialise s dev))) = Some d1 \<longrightarrow>
        usb_close d1 = usb_close dev \<and>
        (usb_close dev = None \<longrightarrow>
           fst (close_finish d1 (fst (snd (initialise s dev)))) = Inr () \<and>
           device (snd (close_finish d1 (fst (snd (initialise s dev))))) = None \<and>
           inEP (snd (close_finish d1 (fst (snd (initialise s dev))))) = None \<and>
           outEP (snd (close_finish d1 (fst (snd (initialise s dev))))) = None \<and>
           close (snd (close_finish d1 (fst (snd (initialise s dev))))) =
             (Inr (), snd (close_finish d1 (fst (snd (initialise s dev)))), [])) \<and>
        (usb_close dev = Some e \<longrightarrow>
           close_finish d1 (fst (snd (initialise s dev))) =
             (Inl e, fst (snd (initialise s dev))) \<and>
           close (fst (snd (initialise s dev))) =
             (Inl e, fst (snd (initialise s dev)), [DeviceClose])))"
proof -
  let ?msg = "if \<not> opened dev then ''Illegal state - device not opened''
          else if selectConfiguration dev CONFIG_NUMBER = Inr None
            then ''Illegal state - device has no configuration''
          else if find (\<lambda>e. direction e = ''in'') (endpoints (alternate i)) = None
            then ''Illegal state - no IN endpoint found''
          else ''Illegal state - no OUT endpoint found''"
  have "\<exists>d0 es1. initialise_try s dev = (Inl (DriverStateError ?msg), s\<lparr>device := Some d0\<rparr>, es1) \<and>
          usb_close d0 = usb_close dev"
  proof (cases "opened dev")
    case False
    then show ?thesis using initialise_try_not_opened [of dev s] by auto
  next
    case op: True
    show ?thesis
    proof (cases "selectConfiguration dev CONFIG_NUMBER = Inr None")
      case True
      then show ?thesis using op initialise_try_no_configuration [of dev s] by auto
    next
      case nc: False
      with op assms(4) have cfg: "selectConfiguration dev CONFIG_NUMBER = Inr (Some c)"
        "interfaces c = i # rest" by auto
      show ?thesis
      proof (cases "find (\<lambda>e. direction e = ''in'') (endpoints (alternate i)) = None")
        case True
        then show ?thesis using op nc cfg initialise_try_no_in [of dev c i rest s] by auto
      next
        case False
        with op nc assms(4)
        have "find (\<lambda>e. direction e = ''out'') (endpoints (alternate i)) = None" by auto
        then show ?thesis
          using op nc cfg False initialise_try_no_out [of dev c i rest s] by auto
      qed
    qed
  qed
  then obtain d0 es1 where tr:
    "initialise_try s dev = (Inl (DriverStateError ?msg), s\<lparr>device := Some d0\<rparr>, es1)"
    and d0: "usb_close d0 = usb_close dev"
    by blast
  let ?s' = "s\<lparr>device := Some d0, heartbeatInterval := None\<rparr>"
  let ?hb = "case heartbeatInterval s of None \<Rightarrow> [] | Some (p, m) \<Rightarrow> [ClearInterval p m]"
  have dv: "device (s\<lparr>device := Some d0\<rparr>) = Some d0" by simp
  have dv2: "device ?s' = Some d0" by simp
  have cb: "close_begin (s\<lparr>device := Some d0\<rparr>) = (Some d0, ?s', ?hb @ [DeviceClose])"
    using close_begin_Some [OF dv] by simp
  have init: "initialise s dev = (Inl (DriverStateError ?msg), ?s', es1 @ ?hb @ [DeviceClose])"
    using initialise_catch [OF assms(1) tr] by (simp add: cb)
  have fin: "usb_close dev = None \<Longrightarrow>
      close_finish d0 ?s' = (Inr (), ?s'\<lparr>device := None, inEP := None, outEP := None\<rparr>)"
    using d0 by (simp add: close_finish_def)
  have fin_e: "usb_close dev = Some e \<Longrightarrow> close_finish d0 ?s' = (Inl e, ?s')"
    using d0 by (simp add: close_finish_def)
  have cl_e: "usb_close dev = Some e \<Longrightarrow> close ?s' = (Inl e, ?s', [DeviceClose])"
    using d0 close_Some [OF dv2] by simp
  show ?thesis
    using assms(2,3) d0 fin fin_e cl_e
    by (auto simp: init tr cb close_None)
qed

theorem initialise_bad_device_witness:
  "fst (initialise new_DongleDriver (mock_device\<lparr>opened := False\<rparr>)) =
     Inl (DriverStateError ''Illegal state - device not opened'') \<and>
   fst (initialise new_DongleDriver (mock_device\<lparr>selectConfiguration := (\<lambda>n. Inr None)\<rparr>)) =
     Inl (DriverStateError ''Illegal state - device has no configuration'') \<and>
   fst (initialise new_DongleDriver
          (mock_device\<lparr>selectConfiguration := (\<lambda>n. Inr (Some (mock_configuration [mock_in])))\<rparr>)) =
     Inl (DriverStateError ''Illegal state - no OUT endpoint found'') \<and>
   fst (initialise new_DongleDriver
          (mock_device\<lparr>selectConfiguration := (\<lambda>n. Inr (Some (mock_configuration [])))\<rparr>)) =
     Inl (DriverStateError ''Illegal state - no IN endpoint found'') \<and>
   snd (initialise new_DongleDriver (mock_device\<lparr>opened := False\<rparr>)) =
     (new_DongleDriver\<lparr>device := Some (mock_device\<lparr>opened := False\<rparr>)\<rparr>, [DeviceClose]) \<and>
   close_finish (mock_device\<lparr>opened := False\<rparr>)
     (new_DongleDriver\<lparr>device := Some (mock_device\<lparr>opened := False\<rparr>)\<rparr>) =
     (Inr (), new_DongleDriver)"
proof -
  have a: "fst (initialise new_DongleDriver (mock_device\<lparr>opened := False\<rparr>)) =
     Inl (DriverStateError ''Illegal state - device not opened'')"
    using initialise_bad_device
      [where s = new_DongleDriver and dev = "mock_device\<lparr>opened := False\<rparr>", THEN conjunct1]
    by (simp add: new_DongleDriver_def mock_device_def)
  have b: "fst (initialise new_DongleDriver (mock_device\<lparr>selectConfiguration := (\<lambda>n. Inr None)\<rparr>)) =
     Inl (DriverStateError ''Illegal state - device has no configuration'')"
    using initialise_bad_device
      [where s = new_DongleDriver
       and dev = "mock_device\<lparr>selectConfiguration := (\<lambda>n. Inr None)\<rparr>", THEN conjunct1]
    by (simp add: new_DongleDriver_def mock_device_def)
  have c: "fst (initialise new_DongleDriver
          (mock_device\<lparr>selectConfiguration := (\<lambda>n. Inr (Some (mock_configuration [mock_in])))\<rparr>)) =
     Inl (DriverStateError ''Illegal state - no OUT endpoint found'')"
    using initialise_bad_device
      [where s = new_DongleDriver
       and dev = "mock_device\<lparr>selectConfiguration := (\<lambda>n. Inr (Some (mock_configuration [mock_in])))\<rparr>"
       and c = "mock_configuration [mock_in]"
       and i = "\<lparr>interfaceNumber = 0, alternate = \<lparr>endpoints = [mock_in]\<rparr>\<rparr>" and rest = "[]",
       THEN conjunct1]
    by (simp add: new_DongleDriver_def mock_device_def mock_configuration_def mock_in_def)
  have d: "fst (initialise new_DongleDriver
          (mock_device\<lparr>selectConfiguration := (\<lambda>n. Inr (Some (mock_configuration [])))\<rparr>)) =
     Inl (DriverStateError ''Illegal state - no IN endpoint found'')"
    using initialise_bad_device
      [where s = new_DongleDriver
       and dev = "mock_device\<lparr>selectConfiguration := (\<lambda>n. Inr (Some (mock_configuration [])))\<rparr>"
       and c = "mock_configuration []"
       and i = "\<lparr>interfaceNumber = 0, alternate = \<lparr>endpoints = []\<rparr>\<rparr>" and rest = "[]",
       THEN conjunct1]
    by (simp add: new_DongleDriver_def mock_device_def mock_configuration_def)
  have e: "snd (initialise new_DongleDriver (mock_device\<lparr>opened := False\<rparr>)) =
     (new_DongleDriver\<lparr>device := Some (mock_device\<lparr>opened := False\<rparr>)\<rparr>, [DeviceClose])"
    using initialise_bad_device
      [where s = new_DongleDriver and dev = "mock_device\<lparr>opened := False\<rparr>",
       THEN conjunct2, THEN conjunct1]
    by (simp add: new_DongleDriver_def mock_device_def initialise_try_def close_begin_def)
  have f: "close_finish (mock_device\<lparr>opened := False\<rparr>)
     (new_DongleDriver\<lparr>device := Some (mock_device\<lparr>opened := False\<rparr>)\<rparr>) =
     (Inr (), new_DongleDriver)"
    by (simp add: close_finish_def new_DongleDriver_def mock_device_def)
  from a b c d e f show ?thesis by blast
qed

text \<open>
  C8 as stated fails. A device that is not opened and whose \<open>close\<close> throws, as an
  unplugged device does: \<open>initialise\<close> fails with the DriverStateError, the \<open>close\<close>
  of its handler ends with the device still attached, and a \<open>close\<close> after that is not
  safe, it throws.
\<close>

theorem initialise_then_close_raises_counterexample:
  "fst (initialise new_DongleDriver
          (mock_device\<lparr>opened := False, usb_close := Some (DeviceError ''NotFoundError'')\<rparr>)) =
     Inl (DriverStateError ''Illegal state - device not opened'') \<and>
   close_finish (mock_device\<lparr>opened := False, usb_close := Some (DeviceError ''NotFoundError'')\<rparr>)
     (fst (snd (initialise new_DongleDriver
        (mock_device\<lparr>opened := False, usb_close := Some (DeviceError ''NotFoundError'')\<rparr>)))) =
     (Inl (DeviceError ''NotFoundError''),
      new_DongleDriver\<lparr>device :=
        Some (mock_device\<lparr>opened := False, usb_close := Some (DeviceError ''NotFoundError'')\<rparr>)\<rparr>) \<and>
   fst (close (new_DongleDriver\<lparr>device :=
        Some (mock_device\<lparr>opened := False, usb_close := Some (DeviceError ''NotFoundError'')\<rparr>)\<rparr>)) =
     Inl (DeviceError ''NotFoundError'')"
  by (simp add: initialise_def initialise_try_def close_begin_def close_finish_def close_def
      new_DongleDriver_def mock_device_def)

subsection \<open>readLoop\<close>



lemma readLoop_step:
  "device s = Some d \<Longrightarrow> opened d \<Longrightarrow> \<not> MAX_ERROR_COUNT \<le> errorCount s \<Longrightarrow>
   readLoop c script s =
     (case loop_body c script s of
        (Blocked, rest, s1, es) \<Rightarrow> (Pending, s1, es)
      | (Returned, rest, s1, es) \<Rightarrow> (SilentReturn, s1, es)
      | (Completed, rest, s1, es) \<Rightarrow>
          (case readLoop c rest s1 of (x, s', es') \<Rightarrow> (x, s', es @ es'))
      | (Thrown error, rest, s1, es) \<Rightarrow>
          (case readLoop c rest (s1\<lparr>errorCount := errorCount s1 + 1\<rparr>) of
             (x, s', es') \<Rightarrow> (x, s', es @ ConsoleError (catch_log error) # es')))"
  by (subst readLoop.simps) simp









text \<open>
  C4. When a header has been read and parsed, its length is not zero and the transfer of
  the body yields no data, the loop prints an error and returns, whatever the device would
  answer next. With the session left alone meanwhile it is as it was at the start of that
  pass, error counter included, and nothing is emitted. Whatever is done to the session
  meanwhile, the loop returns all the same, the error counter is as it was and no
  \<open>failure\<close> is emitted.
\<close>

theorem readLoop_missing_body:
  assumes "device s = Some d" and "opened d" and "errorCount s < MAX_ERROR_COUNT"
    and "inEP s = Some ep" and "fromBuffer c hdr = Inr h" and "msg_length h \<noteq> 0"
  shows
    "readLoop c ((InData hdr, Undisturbed) # (InNoData, Undisturbed) # rest) s =
       (SilentReturn, s,
        [TransferIn (endpointNumber ep) (dataLength c),
         TransferIn (endpointNumber ep) (msg_length h),
         ConsoleError ''Failed to read extra data'']) \<and>
     fst (readLoop c ((InData hdr, x1) # (InNoData, x2) # rest) s) = SilentReturn \<and>
     errorCount (fst (snd (readLoop c ((InData hdr, x1) # (InNoData, x2) # rest) s))) =
       errorCount s \<and>
     EmitFailure \<notin> set (snd (snd (readLoop c ((InData hdr, x1) # (InNoData, x2) # rest) s)))"
proof -
  have lt: "\<not> MAX_ERROR_COUNT \<le> errorCount s" using assms(3) by simp
  note step = readLoop_step [OF assms(1,2) lt]
  have a: "readLoop c ((InData hdr, Undisturbed) # (InNoData, Undisturbed) # rest) s =
       (SilentReturn, s,
        [TransferIn (endpointNumber ep) (dataLength c),
         TransferIn (endpointNumber ep) (msg_length h),
         ConsoleError ''Failed to read extra data''])"
    using assms(1,4-6) by (simp add: step loop_body_def read_body_def disturb_def)
  have ep: "device (disturb x1 s) = None \<or> inEP (disturb x1 s) = Some ep"
    using assms(1,4)
    by (cases x1) (auto simp: disturb_def close_Some split: option.splits)
  have b: "fst (loop_body c ((InData hdr, x1) # (InNoData, x2) # rest) s) = Returned \<and>
      errorCount (fst (snd (snd (loop_body c ((InData hdr, x1) # (InNoData, x2) # rest) s)))) =
        errorCount s \<and>
      EmitFailure \<notin> set (snd (snd (snd (loop_body c ((InData hdr, x1) # (InNoData, x2) # rest) s))))"
    using assms(1,4-6) ep
    by (auto simp: loop_body_def read_body_def disturb_errorCount Let_def split: option.splits)
  show ?thesis
    using a b by (auto simp: step split: prod.splits body_result.splits)
qed

theorem readLoop_missing_body_witness:
  "readLoop mock_codec
     [(InData [0,0,0,0, 0,0,0,0, 2,0,0,0, 8,0,0,0], Undisturbed), (InNoData, Undisturbed),
      (InThrows (DeviceError ''NetworkError''), Undisturbed)]
     ((mock_streaming mock_device)\<lparr>errorCount := 3\<rparr>) =
     (SilentReturn, (mock_streaming mock_device)\<lparr>errorCount := 3\<rparr>,
      [TransferIn 1 16, TransferIn 1 8, ConsoleError ''Failed to read extra data''])"
  using readLoop_missing_body
    [where s = "(mock_streaming mock_device)\<lparr>errorCount := 3\<rparr>" and d = mock_device
     and ep = mock_in and c = mock_codec and hdr = "[0,0,0,0, 0,0,0,0, 2,0,0,0, 8,0,0,0]"
     and h = "\<lparr>msg_type = 2, msg_length = 8\<rparr>"
     and rest = "[(InThrows (DeviceError ''NetworkError''), Undisturbed)]", THEN conjunct1]
  by (simp add: mock_streaming_def mock_session_def mock_device_def MAX_ERROR_COUNT_def
      mock_in_def mock_codec_def le32_def)

subsection \<open>start\<close>









end
